theory Spec2Isabelle
  imports Complex_Main "HOL-Library.AList"
begin

section \<open>Numbers\<close>

text \<open>
  The source computes with JavaScript numbers. A finite number is modelled by a rational
  and finite arithmetic is exact; the outcomes of a division by zero (\<open>NaN\<close>, the two
  infinities) and their propagation through \<open>+\<close>, \<open>*\<close>, \<open>/\<close>, \<open>Math.min\<close>, \<open>Math.max\<close> and
  \<open>Math.round\<close> are modelled as the language defines them. Zero is the positive zero.
\<close>

datatype jsnum = NaN | NegInf | PosInf | Fin rat

fun js_add :: "jsnum \<Rightarrow> jsnum \<Rightarrow> jsnum" where
  "js_add NaN y = NaN"
| "js_add x NaN = NaN"
| "js_add PosInf NegInf = NaN"
| "js_add NegInf PosInf = NaN"
| "js_add PosInf y = PosInf"
| "js_add x PosInf = PosInf"
| "js_add NegInf y = NegInf"
| "js_add x NegInf = NegInf"
| "js_add (Fin a) (Fin b) = Fin (a + b)"

definition inf_of_sign :: "rat \<Rightarrow> jsnum" where
  "inf_of_sign s = (if s = 0 then NaN else if 0 < s then PosInf else NegInf)"

fun js_mul :: "jsnum \<Rightarrow> jsnum \<Rightarrow> jsnum" where
  "js_mul NaN y = NaN"
| "js_mul x NaN = NaN"
| "js_mul (Fin a) (Fin b) = Fin (a * b)"
| "js_mul (Fin a) PosInf = inf_of_sign a"
| "js_mul (Fin a) NegInf = inf_of_sign (- a)"
| "js_mul PosInf (Fin b) = inf_of_sign b"
| "js_mul NegInf (Fin b) = inf_of_sign (- b)"
| "js_mul PosInf PosInf = PosInf"
| "js_mul NegInf NegInf = PosInf"
| "js_mul PosInf NegInf = NegInf"
| "js_mul NegInf PosInf = NegInf"

fun js_div :: "jsnum \<Rightarrow> jsnum \<Rightarrow> jsnum" where
  "js_div NaN y = NaN"
| "js_div x NaN = NaN"
| "js_div (Fin a) (Fin b) = (if b \<noteq> 0 then Fin (a / b) else inf_of_sign a)"
| "js_div (Fin a) PosInf = Fin 0"
| "js_div (Fin a) NegInf = Fin 0"
| "js_div PosInf (Fin b) = (if 0 \<le> b then PosInf else NegInf)"
| "js_div NegInf (Fin b) = (if 0 \<le> b then NegInf else PosInf)"
| "js_div PosInf PosInf = NaN"
| "js_div PosInf NegInf = NaN"
| "js_div NegInf PosInf = NaN"
| "js_div NegInf NegInf = NaN"

text \<open>\<open>Math.min\<close> and \<open>Math.max\<close> on two arguments: \<open>NaN\<close> if either is.\<close>

fun js_min :: "jsnum \<Rightarrow> jsnum \<Rightarrow> jsnum" where
  "js_min NaN y = NaN"
| "js_min x NaN = NaN"
| "js_min NegInf y = NegInf"
| "js_min x NegInf = NegInf"
| "js_min PosInf y = y"
| "js_min x PosInf = x"
| "js_min (Fin a) (Fin b) = Fin (min a b)"

fun js_max :: "jsnum \<Rightarrow> jsnum \<Rightarrow> jsnum" where
  "js_max NaN y = NaN"
| "js_max x NaN = NaN"
| "js_max PosInf y = PosInf"
| "js_max x PosInf = PosInf"
| "js_max NegInf y = y"
| "js_max x NegInf = x"
| "js_max (Fin a) (Fin b) = Fin (max a b)"

fun js_isNaN :: "jsnum \<Rightarrow> bool" where
  "js_isNaN NaN = True"
| "js_isNaN x = False"

text \<open>\<open>Math.round\<close>: the nearest integer, a tie going up.\<close>

fun js_round :: "jsnum \<Rightarrow> jsnum" where
  "js_round (Fin a) = Fin (of_int \<lfloor>a + 1 / 2\<rfloor>)"
| "js_round x = x"

text \<open>\<open>a >= b\<close> on numbers: false when either side is \<open>NaN\<close>.\<close>

fun js_ge :: "jsnum \<Rightarrow> jsnum \<Rightarrow> bool" where
  "js_ge NaN y = False"
| "js_ge x NaN = False"
| "js_ge PosInf y = True"
| "js_ge x NegInf = True"
| "js_ge NegInf y = False"
| "js_ge x PosInf = False"
| "js_ge (Fin a) (Fin b) = (b \<le> a)"

text \<open>\<open>x || 0\<close> on a finite number: zero is falsy, every other finite number is kept.\<close>

definition or0 :: "'a::zero \<Rightarrow> 'a" where
  "or0 x = (if x = 0 then 0 else x)"

section \<open>Data model (types/skill-taxonomy.ts)\<close>

text \<open>
  Only the fields that gap-analysis.ts reads are kept. Field names carry a prefix, since
  several interfaces share \<open>skill_id\<close>. Difficulty is the integer scale of
  \<open>DifficultyLevel\<close>; learning time is counted in whole weeks.
\<close>

datatype importance = Critical | High | Medium | Low

record Skill =
  sk_id :: string
  sk_name :: string
  difficulty :: int
  typical_learning_time_weeks :: int
  prerequisites :: "string list"

record CandidateSkill =
  cs_skill_id :: string
  proficiency_level :: rat

record Candidate =
  cand_id :: string
  current_skills :: "CandidateSkill list"
  experience_years :: rat

record RoleSkillRequirement =
  req_skill_id :: string
  minimum_proficiency :: rat
  req_importance :: importance

record TargetRole =
  role_id :: string
  required_skills :: "RoleSkillRequirement list"
  min_experience_years :: rat

record SkillGap =
  gap_skill_id :: string
  gap_current_proficiency :: rat
  gap_required_proficiency :: rat
  gap_score :: rat
  priority :: importance

record MatchedSkill =
  m_skill_id :: string
  m_current_proficiency :: rat
  m_required_proficiency :: rat
  m_meets_requirement :: bool

record ExperienceMatch =
  candidate_years :: rat
  required_years :: rat
  exp_meets_requirement :: bool

record GapAnalysisResult =
  readiness_score :: jsnum
  missing_skills :: "SkillGap list"
  matched_skills :: "MatchedSkill list"
  experience_match :: ExperienceMatch

section \<open>Gap analysis\<close>

text \<open>
  A \<open>Map\<close> filled by \<open>forEach\<close> and \<open>set\<close>: a later entry replaces an earlier one.
  \<open>current_skills\<close> is declared an array, so \<open>candidate.current_skills || []\<close> is the
  array itself.
\<close>

definition candidateSkillMap_of :: "CandidateSkill list \<Rightarrow> (string \<rightharpoonup> CandidateSkill)" where
  "candidateSkillMap_of currentSkills =
     fold (\<lambda>cs m. m(cs_skill_id cs \<mapsto> cs)) currentSkills Map.empty"

definition importanceMultiplier :: "importance \<Rightarrow> rat" where
  "importanceMultiplier i =
     (case i of Critical \<Rightarrow> 3 / 2 | High \<Rightarrow> 6 / 5 | Medium \<Rightarrow> 1 | Low \<Rightarrow> 4 / 5)"

text \<open>The body of the \<open>matchedSkills.forEach\<close> of \<open>calculateReadinessScore\<close>.\<close>

definition skillScore_step :: "TargetRole \<Rightarrow> MatchedSkill \<Rightarrow> jsnum \<Rightarrow> jsnum" where
  "skillScore_step targetRole match skillScore =
     (case find (\<lambda>r. req_skill_id r = m_skill_id match) (required_skills targetRole) of
        None \<Rightarrow> skillScore
      | Some requirement \<Rightarrow>
          (let proficiencyRatio =
                 js_min (js_div (Fin (m_current_proficiency match))
                                (Fin (m_required_proficiency match))) (Fin 1)
           in js_add skillScore
                (js_mul proficiencyRatio (Fin (importanceMultiplier (req_importance requirement))))))"

definition totalImportanceWeight :: "TargetRole \<Rightarrow> rat" where
  "totalImportanceWeight targetRole =
     fold (\<lambda>req sum. sum + importanceMultiplier (req_importance req))
          (required_skills targetRole) 0"

definition normalizedSkillScore :: "TargetRole \<Rightarrow> MatchedSkill list \<Rightarrow> jsnum" where
  "normalizedSkillScore targetRole matchedSkills =
     (let skillScore = fold (skillScore_step targetRole) matchedSkills (Fin 0)
      in if 0 < totalImportanceWeight targetRole
         then js_mul (js_div skillScore (Fin (totalImportanceWeight targetRole))) (Fin 100)
         else Fin 0)"

definition experienceScore :: "Candidate \<Rightarrow> TargetRole \<Rightarrow> jsnum" where
  "experienceScore candidate targetRole =
     (let experienceRatio =
            (if 0 < min_experience_years targetRole
             then js_min (js_div (Fin (experience_years candidate))
                                 (Fin (min_experience_years targetRole))) (Fin 1)
             else Fin 1)
      in js_mul experienceRatio (Fin 100))"

definition calculateReadinessScore ::
  "Candidate \<Rightarrow> TargetRole \<Rightarrow> MatchedSkill list \<Rightarrow> jsnum" where
  "calculateReadinessScore candidate targetRole matchedSkills =
     (if length (required_skills targetRole) = 0 then Fin 100
      else if length matchedSkills = 0 then Fin 0
      else
        (let finalScore =
               js_add (js_mul (normalizedSkillScore targetRole matchedSkills) (Fin (7 / 10)))
                      (js_mul (experienceScore candidate targetRole) (Fin (3 / 10)));
             validScore = (if js_isNaN finalScore then Fin 0 else finalScore)
         in js_round (js_min (js_max validScore (Fin 0)) (Fin 100))))"

definition currentProficiency :: "(string \<rightharpoonup> CandidateSkill) \<Rightarrow> string \<Rightarrow> rat" where
  "currentProficiency candidateSkillMap sid =
     (case candidateSkillMap sid of None \<Rightarrow> 0 | Some cs \<Rightarrow> or0 (proficiency_level cs))"

definition matched_of :: "(string \<rightharpoonup> CandidateSkill) \<Rightarrow> RoleSkillRequirement \<Rightarrow> MatchedSkill" where
  "matched_of candidateSkillMap requirement =
     \<lparr>m_skill_id = req_skill_id requirement,
      m_current_proficiency = currentProficiency candidateSkillMap (req_skill_id requirement),
      m_required_proficiency = minimum_proficiency requirement,
      m_meets_requirement =
        (minimum_proficiency requirement
           \<le> currentProficiency candidateSkillMap (req_skill_id requirement))\<rparr>"

definition gap_of :: "(string \<rightharpoonup> CandidateSkill) \<Rightarrow> RoleSkillRequirement \<Rightarrow> SkillGap" where
  "gap_of candidateSkillMap requirement =
     \<lparr>gap_skill_id = req_skill_id requirement,
      gap_current_proficiency = currentProficiency candidateSkillMap (req_skill_id requirement),
      gap_required_proficiency = minimum_proficiency requirement,
      gap_score = minimum_proficiency requirement
                    - currentProficiency candidateSkillMap (req_skill_id requirement),
      priority = req_importance requirement\<rparr>"

text \<open>
  The body of the \<open>required_skills.forEach\<close> of \<open>analyzeGap\<close>; the state is the pair of the
  two arrays that it pushes to.
\<close>

definition analyze_step ::
  "(string \<rightharpoonup> CandidateSkill) \<Rightarrow> RoleSkillRequirement
     \<Rightarrow> MatchedSkill list \<times> SkillGap list \<Rightarrow> MatchedSkill list \<times> SkillGap list" where
  "analyze_step candidateSkillMap requirement st =
     (let matchedSkills = fst st @ [matched_of candidateSkillMap requirement]
      in if \<not> m_meets_requirement (matched_of candidateSkillMap requirement)
         then (matchedSkills, snd st @ [gap_of candidateSkillMap requirement])
         else (matchedSkills, snd st))"

definition analyzeGap :: "Candidate \<Rightarrow> TargetRole \<Rightarrow> Skill list \<Rightarrow> GapAnalysisResult" where
  "analyzeGap candidate targetRole allSkills =
     (let candidateSkillMap = candidateSkillMap_of (current_skills candidate);
          st = fold (analyze_step candidateSkillMap) (required_skills targetRole) ([], [])
      in \<lparr>readiness_score = calculateReadinessScore candidate targetRole (fst st),
          missing_skills = snd st,
          matched_skills = fst st,
          experience_match =
            \<lparr>candidate_years = experience_years candidate,
             required_years = min_experience_years targetRole,
             exp_meets_requirement =
               (min_experience_years targetRole \<le> experience_years candidate)\<rparr>\<rparr>)"


section \<open>Topological sort\<close>

definition skillMap_of :: "Skill list \<Rightarrow> (string \<rightharpoonup> Skill)" where
  "skillMap_of allSkills = fold (\<lambda>s m. m(sk_id s \<mapsto> s)) allSkills Map.empty"

text \<open>
  \<open>graph\<close> and \<open>inDegree\<close> are \<open>Map\<close>s whose key order is observed (\<open>inDegree.forEach\<close>
  seeds the queue), so they are association lists in insertion order: \<open>AList.update\<close>
  replaces the value of a key in place and appends a new key at the end, as \<open>Map.set\<close> does.
\<close>

record build_state =
  skillIds :: "string list"
  graph :: "(string \<times> string list) list"
  inDegree :: "(string \<times> int) list"

text \<open>\<open>(m.get(k) || 0)\<close> on a map of numbers.\<close>

definition getOr0 :: "(string \<times> int) list \<Rightarrow> string \<Rightarrow> int" where
  "getOr0 m k = (case map_of m k of None \<Rightarrow> 0 | Some d \<Rightarrow> or0 d)"

definition candidateHasPrereq :: "(string \<rightharpoonup> CandidateSkill) \<Rightarrow> string \<Rightarrow> bool" where
  "candidateHasPrereq candidateSkillMap prereqId =
     (case candidateSkillMap prereqId of
        None \<Rightarrow> False
      | Some cs \<Rightarrow> 5 \<le> or0 (proficiency_level cs))"

definition init_state :: "string list \<Rightarrow> build_state" where
  "init_state ids =
     \<lparr>skillIds = ids,
      graph = fold (\<lambda>i g. AList.update i [] g) ids [],
      inDegree = fold (\<lambda>i d. AList.update i 0 d) ids []\<rparr>"

text \<open>The body of \<open>skill.prerequisites.forEach\<close>, for the skill \<open>skillId\<close> being visited.\<close>

definition prereq_step ::
  "(string \<rightharpoonup> CandidateSkill) \<Rightarrow> string \<Rightarrow> string \<Rightarrow> build_state \<Rightarrow> build_state" where
  "prereq_step candidateSkillMap skillId prereqId st =
     (if prereqId \<in> set (skillIds st) \<or> \<not> candidateHasPrereq candidateSkillMap prereqId
      then
        (let st1 =
               (if prereqId \<notin> set (skillIds st) \<and> \<not> candidateHasPrereq candidateSkillMap prereqId
                then st\<lparr>skillIds := skillIds st @ [prereqId],
                        graph := AList.update prereqId [] (graph st),
                        inDegree := AList.update prereqId 0 (inDegree st)\<rparr>
                else st)
         in if prereqId \<in> set (skillIds st1)
            then st1\<lparr>graph :=
                       (case map_of (graph st1) prereqId of
                          None \<Rightarrow> graph st1
                        | Some ns \<Rightarrow> AList.update prereqId (ns @ [skillId]) (graph st1)),
                     inDegree :=
                       AList.update skillId (getOr0 (inDegree st1) skillId + 1) (inDegree st1)\<rparr>
            else st1)
      else st)"

text \<open>The body of the edge-building \<open>skillIds.forEach\<close>.\<close>

definition skill_step ::
  "(string \<rightharpoonup> Skill) \<Rightarrow> (string \<rightharpoonup> CandidateSkill) \<Rightarrow> string \<Rightarrow> build_state \<Rightarrow> build_state" where
  "skill_step skillMap candidateSkillMap skillId st =
     (case skillMap skillId of
        None \<Rightarrow> st
      | Some skill \<Rightarrow> fold (prereq_step candidateSkillMap skillId) (prerequisites skill) st)"

text \<open>
  \<open>Array.prototype.forEach\<close> fixes the range of indices before the first call of the
  callback (the language standard: elements appended to the array after the call to
  \<open>forEach\<close> begins are not visited). The loop therefore runs over the array as it was
  passed in, while the state carries the growing array.
\<close>

definition build_graph ::
  "(string \<rightharpoonup> Skill) \<Rightarrow> (string \<rightharpoonup> CandidateSkill) \<Rightarrow> string list \<Rightarrow> build_state" where
  "build_graph skillMap candidateSkillMap ids =
     fold (skill_step skillMap candidateSkillMap) ids (init_state ids)"

definition skillDifficulty :: "(string \<rightharpoonup> Skill) \<Rightarrow> string \<Rightarrow> int" where
  "skillDifficulty skillMap a = (case skillMap a of None \<Rightarrow> 0 | Some s \<Rightarrow> or0 (difficulty s))"

text \<open>\<open>queue.sort\<close> with the comparator on difficulties: a stable sort on that key.\<close>

definition sortQueue :: "(string \<rightharpoonup> Skill) \<Rightarrow> string list \<Rightarrow> string list" where
  "sortQueue skillMap queue = sort_key (skillDifficulty skillMap) queue"

text \<open>The body of \<open>neighbors.forEach\<close>; the state is \<open>inDegree\<close> and the queue.\<close>

definition neighbor_step ::
  "string \<Rightarrow> (string \<times> int) list \<times> string list \<Rightarrow> (string \<times> int) list \<times> string list" where
  "neighbor_step neighbor st =
     (let newDegree = getOr0 (fst st) neighbor - 1;
          inDeg = AList.update neighbor newDegree (fst st)
      in if newDegree = 0 then (inDeg, snd st @ [neighbor]) else (inDeg, snd st))"

definition process_neighbors ::
  "(string \<times> string list) list \<Rightarrow> string
     \<Rightarrow> (string \<times> int) list \<times> string list \<Rightarrow> (string \<times> int) list \<times> string list" where
  "process_neighbors g current st =
     fold neighbor_step (case map_of g current of None \<Rightarrow> [] | Some ns \<Rightarrow> ns) st"

definition positive_degrees :: "(string \<times> int) list \<Rightarrow> nat" where
  "positive_degrees d = length (filter (\<lambda>kv. 0 < snd kv) d)"

text \<open>
  The \<open>while (queue.length > 0)\<close> loop. Each pass removes one element of the queue, and an
  element enters the queue only when its degree drops from 1 to 0, so the length of the
  queue plus the number of positive degrees decreases.
\<close>

lemma positive_degrees_update_None:
  "map_of d k = None \<Longrightarrow>
     positive_degrees (AList.update k v d) = positive_degrees d + (if 0 < v then 1 else 0)"
  by (induction d) (auto simp: positive_degrees_def split: if_splits)

lemma positive_degrees_update_Some:
  "map_of d k = Some w \<Longrightarrow>
     positive_degrees (AList.update k v d) + (if 0 < w then 1 else 0)
       = positive_degrees d + (if 0 < v then 1 else 0)"
  by (induction d) (auto simp: positive_degrees_def split: if_splits)

lemma neighbor_step_measure:
  "length (snd (neighbor_step n st)) + positive_degrees (fst (neighbor_step n st))
     \<le> length (snd st) + positive_degrees (fst st)"
proof (cases "map_of (fst st) n")
  case None
  then show ?thesis
    by (simp add: neighbor_step_def Let_def getOr0_def positive_degrees_update_None)
next
  case (Some w)
  have get: "getOr0 (fst st) n = w"
    using Some by (simp add: getOr0_def or0_def)
  show ?thesis
  proof (cases "w = 1")
    case True
    then show ?thesis
      using positive_degrees_update_Some [OF Some, of 0]
      by (simp add: neighbor_step_def Let_def get)
  next
    case False
    then show ?thesis
      using positive_degrees_update_Some [OF Some, of "w - 1"]
      by (simp add: neighbor_step_def Let_def get split: if_splits)
  qed
qed

lemma fold_neighbor_step_measure:
  "length (snd (fold neighbor_step ns st)) + positive_degrees (fst (fold neighbor_step ns st))
     \<le> length (snd st) + positive_degrees (fst st)"
proof (induction ns arbitrary: st)
  case Nil
  show ?case by simp
next
  case (Cons n ns)
  have "length (snd (fold neighbor_step ns (neighbor_step n st)))
          + positive_degrees (fst (fold neighbor_step ns (neighbor_step n st)))
        \<le> length (snd (neighbor_step n st)) + positive_degrees (fst (neighbor_step n st))"
    by (rule Cons.IH)
  also note neighbor_step_measure
  finally show ?case by simp
qed

lemma process_neighbors_measure:
  "length (snd (process_neighbors g c st)) + positive_degrees (fst (process_neighbors g c st))
     \<le> length (snd st) + positive_degrees (fst st)"
  unfolding process_neighbors_def by (rule fold_neighbor_step_measure)

lemma sortQueue_Cons_length: "sortQueue sm q = c # rest \<Longrightarrow> length q = Suc (length rest)"
  using length_sort [of "skillDifficulty sm" q] by (simp add: sortQueue_def)

function kahn_loop ::
  "(string \<rightharpoonup> Skill) \<Rightarrow> (string \<times> string list) list \<Rightarrow> string list
     \<Rightarrow> (string \<times> int) list \<Rightarrow> string list \<Rightarrow> string list" where
  "kahn_loop skillMap g queue inDeg result =
     (case sortQueue skillMap queue of
        [] \<Rightarrow> result
      | current # rest \<Rightarrow>
          kahn_loop skillMap g
            (snd (process_neighbors g current (inDeg, rest)))
            (fst (process_neighbors g current (inDeg, rest)))
            (result @ [current]))"
  by pat_completeness auto
termination
proof (relation "measure (\<lambda>(sm, g, q, d, r). length q + positive_degrees d)", goal_cases)
  case 1
  show ?case by simp
next
  case (2 sm g q d r c rest)
  show ?case
    using process_neighbors_measure [of g c "(d, rest)"] sortQueue_Cons_length [OF 2]
    by simp
qed

declare kahn_loop.simps [simp del]

definition initial_queue :: "(string \<times> int) list \<Rightarrow> string list" where
  "initial_queue inDeg = map fst (filter (\<lambda>kv. snd kv = 0) inDeg)"

definition topologicalSort ::
  "string list \<Rightarrow> Skill list \<Rightarrow> (string \<rightharpoonup> CandidateSkill) \<Rightarrow> string list" where
  "topologicalSort ids allSkills candidateSkillMap =
     (let skillMap = skillMap_of allSkills;
          st = build_graph skillMap candidateSkillMap ids
      in kahn_loop skillMap (graph st) (initial_queue (inDegree st)) (inDegree st) [])"

section \<open>Phases and roadmap\<close>

record LearningPathStep =
  step_order :: nat
  step_skill_id :: string
  estimated_weeks :: int
  prerequisites_met :: bool
  reason :: string

record LearningPhase =
  phase_number :: nat
  phase_name :: string
  skills :: "LearningPathStep list"
  phase_estimated_weeks :: int

record LearningRoadmap =
  rm_candidate_id :: string
  rm_target_role_id :: string
  rm_generated_at :: string
  skill_gaps :: "SkillGap list"
  estimated_total_weeks :: int
  learning_path :: "LearningPathStep list"

record CompleteAnalysis =
  ca_candidate_id :: string
  ca_target_role_id :: string
  ca_generated_at :: string
  gap_analysis :: GapAnalysisResult
  learning_roadmap :: LearningRoadmap

text \<open>
  The one place where the source can throw: \<open>createPhase\<close> reads
  \<open>skill.typical_learning_time_weeks\<close> of \<open>skillMap.get(skillId)!\<close>, a \<open>TypeError\<close> when the
  identifier is not in the catalog.
\<close>

datatype error = TypeError

text \<open>A number inside a template string: its decimal digits.\<close>

fun string_of_nat :: "nat \<Rightarrow> string" where
  "string_of_nat n =
     (if n < 10 then [char_of (48 + n)]
      else string_of_nat (n div 10) @ [char_of (48 + n mod 10)])"

fun learningSteps ::
  "nat \<Rightarrow> string \<Rightarrow> (string \<rightharpoonup> Skill) \<Rightarrow> nat \<Rightarrow> string list
     \<Rightarrow> error + LearningPathStep list" where
  "learningSteps phaseNumber phaseName skillMap index [] = Inr []"
| "learningSteps phaseNumber phaseName skillMap index (skillId # rest) =
     (case skillMap skillId of
        None \<Rightarrow> Inl TypeError
      | Some skill \<Rightarrow>
          (case learningSteps phaseNumber phaseName skillMap (index + 1) rest of
             Inl e \<Rightarrow> Inl e
           | Inr steps \<Rightarrow>
               Inr (\<lparr>step_order = index + 1,
                     step_skill_id = skillId,
                     estimated_weeks = typical_learning_time_weeks skill,
                     prerequisites_met = True,
                     reason = ''Phase '' @ string_of_nat phaseNumber @ '': '' @ phaseName
                                @ '' - '' @ sk_name skill\<rparr> # steps)))"

definition phaseName_of :: "Skill list \<Rightarrow> string" where
  "phaseName_of sks =
     (let avgDifficulty =
            js_div (Fin (of_int (fold (\<lambda>s sum. sum + difficulty s) sks 0)))
                   (Fin (of_nat (length sks)))
      in if js_ge avgDifficulty (Fin 7) then ''Advanced''
         else if js_ge avgDifficulty (Fin 4) then ''Intermediate''
         else ''Fundamentals'')"

definition createPhase ::
  "nat \<Rightarrow> string list \<Rightarrow> (string \<rightharpoonup> Skill) \<Rightarrow> error + LearningPhase" where
  "createPhase phaseNumber ids skillMap =
     (let sks = List.map_filter skillMap ids;
          phaseName = phaseName_of sks
      in case learningSteps phaseNumber phaseName skillMap 0 ids of
           Inl e \<Rightarrow> Inl e
         | Inr steps \<Rightarrow>
             Inr \<lparr>phase_number = phaseNumber,
                  phase_name = phaseName,
                  skills = steps,
                  phase_estimated_weeks =
                    fold (\<lambda>s sum. sum + typical_learning_time_weeks s) sks 0\<rparr>)"

record group_state =
  phases :: "LearningPhase list"
  currentPhase :: "string list"
  currentMaxDifficulty :: int

text \<open>The body of \<open>orderedSkills.forEach\<close> in \<open>groupIntoPhases\<close>.\<close>

definition group_step ::
  "(string \<rightharpoonup> Skill) \<Rightarrow> string \<Rightarrow> group_state \<Rightarrow> error + group_state" where
  "group_step skillMap skillId st =
     (case skillMap skillId of
        None \<Rightarrow> Inr st
      | Some skill \<Rightarrow>
          (let difficultyJump = (3 \<le> difficulty skill - currentMaxDifficulty st);
               phaseFull = (4 \<le> length (currentPhase st))
           in if (difficultyJump \<or> phaseFull) \<and> 0 < length (currentPhase st)
              then
                (case createPhase (length (phases st) + 1) (currentPhase st) skillMap of
                   Inl e \<Rightarrow> Inl e
                 | Inr p \<Rightarrow>
                     Inr \<lparr>phases = phases st @ [p],
                          currentPhase = [skillId],
                          currentMaxDifficulty = max 0 (difficulty skill)\<rparr>)
              else
                Inr (st\<lparr>currentPhase := currentPhase st @ [skillId],
                        currentMaxDifficulty :=
                          max (currentMaxDifficulty st) (difficulty skill)\<rparr>)))"

fun group_loop ::
  "(string \<rightharpoonup> Skill) \<Rightarrow> string list \<Rightarrow> group_state \<Rightarrow> error + group_state" where
  "group_loop skillMap [] st = Inr st"
| "group_loop skillMap (skillId # rest) st =
     (case group_step skillMap skillId st of
        Inl e \<Rightarrow> Inl e
      | Inr st' \<Rightarrow> group_loop skillMap rest st')"

definition groupIntoPhases :: "string list \<Rightarrow> Skill list \<Rightarrow> error + LearningPhase list" where
  "groupIntoPhases orderedSkills allSkills =
     (let skillMap = skillMap_of allSkills
      in case group_loop skillMap orderedSkills
                \<lparr>phases = [], currentPhase = [], currentMaxDifficulty = 0\<rparr> of
           Inl e \<Rightarrow> Inl e
         | Inr st \<Rightarrow>
             if 0 < length (currentPhase st)
             then (case createPhase (length (phases st) + 1) (currentPhase st) skillMap of
                     Inl e \<Rightarrow> Inl e
                   | Inr p \<Rightarrow> Inr (phases st @ [p]))
             else Inr (phases st))"

text \<open>
  The flattening loop of \<open>generateRoadmap\<close>: every step is copied with \<open>order\<close> replaced by
  the running \<open>globalOrder\<close>.
\<close>

fun renumber :: "nat \<Rightarrow> LearningPathStep list \<Rightarrow> LearningPathStep list" where
  "renumber globalOrder [] = []"
| "renumber globalOrder (step # rest) =
     step\<lparr>step_order := globalOrder\<rparr> # renumber (globalOrder + 1) rest"

fun flatten_phases :: "nat \<Rightarrow> LearningPhase list \<Rightarrow> LearningPathStep list" where
  "flatten_phases globalOrder [] = []"
| "flatten_phases globalOrder (phase # rest) =
     renumber globalOrder (skills phase)
       @ flatten_phases (globalOrder + length (skills phase)) rest"

text \<open>
  \<open>new Date().toISOString()\<close> is the parameter \<open>now\<close>; the two timestamps of one
  \<open>generateAnalysis\<close> call are taken to be the same instant.
\<close>

definition generateRoadmap ::
  "string \<Rightarrow> Candidate \<Rightarrow> TargetRole \<Rightarrow> SkillGap list \<Rightarrow> Skill list
     \<Rightarrow> error + LearningRoadmap" where
  "generateRoadmap now candidate targetRole skillGaps allSkills =
     (let candidateSkillMap = candidateSkillMap_of (current_skills candidate);
          skillsToLearn = map gap_skill_id skillGaps
      in if length skillsToLearn = 0
         then Inr \<lparr>rm_candidate_id = cand_id candidate,
                   rm_target_role_id = role_id targetRole,
                   rm_generated_at = now,
                   skill_gaps = [],
                   estimated_total_weeks = 0,
                   learning_path = []\<rparr>
         else
           (let orderedSkills = topologicalSort skillsToLearn allSkills candidateSkillMap
            in case groupIntoPhases orderedSkills allSkills of
                 Inl e \<Rightarrow> Inl e
               | Inr phs \<Rightarrow>
                   (let learningPath = flatten_phases 1 phs
                    in Inr \<lparr>rm_candidate_id = cand_id candidate,
                             rm_target_role_id = role_id targetRole,
                             rm_generated_at = now,
                             skill_gaps = skillGaps,
                             estimated_total_weeks =
                               fold (\<lambda>step sum. sum + estimated_weeks step) learningPath 0,
                             learning_path = learningPath\<rparr>)))"

definition generateAnalysis ::
  "string \<Rightarrow> Candidate \<Rightarrow> TargetRole \<Rightarrow> Skill list \<Rightarrow> error + CompleteAnalysis" where
  "generateAnalysis now candidate targetRole allSkills =
     (let gapAnalysis = analyzeGap candidate targetRole allSkills
      in case generateRoadmap now candidate targetRole (missing_skills gapAnalysis) allSkills of
           Inl e \<Rightarrow> Inl e
         | Inr learningRoadmap \<Rightarrow>
             Inr \<lparr>ca_candidate_id = cand_id candidate,
                  ca_target_role_id = role_id targetRole,
                  ca_generated_at = now,
                  gap_analysis = gapAnalysis,
                  learning_roadmap = learningRoadmap\<rparr>)"


section \<open>Invariants of the phase grouper\<close>

text \<open>
  A finished phase is well formed when it has between one and four steps, all of catalog
  skills, and its duration is the sum of the durations of its steps. The identifiers held
  by a state of the grouping loop are those of its finished phases followed by its buffer.
\<close>

definition phase_wf :: "(string \<rightharpoonup> Skill) \<Rightarrow> LearningPhase \<Rightarrow> bool" where
  "phase_wf sm p \<longleftrightarrow>
     skills p \<noteq> [] \<and> length (skills p) \<le> 4 \<and>
     set (map step_skill_id (skills p)) \<subseteq> dom sm \<and>
     phase_estimated_weeks p = sum_list (map estimated_weeks (skills p))"

definition ids_of :: "group_state \<Rightarrow> string list" where
  "ids_of st = concat (map (\<lambda>p. map step_skill_id (skills p)) (phases st)) @ currentPhase st"

definition group_inv :: "(string \<rightharpoonup> Skill) \<Rightarrow> group_state \<Rightarrow> bool" where
  "group_inv sm st \<longleftrightarrow>
     set (currentPhase st) \<subseteq> dom sm \<and> length (currentPhase st) \<le> 4 \<and>
     list_all (phase_wf sm) (phases st)"

section \<open>Example data\<close>

definition cand_no_skills :: Candidate where
  "cand_no_skills = \<lparr>cand_id = ''cand-000'', current_skills = [], experience_years = 5\<rparr>"

definition cand_novice :: Candidate where
  "cand_novice = \<lparr>cand_id = ''cand-n'', current_skills = [], experience_years = 0\<rparr>"

definition cand_html :: Candidate where
  "cand_html =
     \<lparr>cand_id = ''cand-h'',
      current_skills = [\<lparr>cs_skill_id = ''fe-001'', proficiency_level = 8\<rparr>],
      experience_years = 2\<rparr>"

definition role_react :: TargetRole where
  "role_react =
     \<lparr>role_id = ''role-r'',
      required_skills =
        [\<lparr>req_skill_id = ''fe-005'', minimum_proficiency = 6, req_importance = High\<rparr>],
      min_experience_years = 3\<rparr>"

definition role_html_react :: TargetRole where
  "role_html_react =
     \<lparr>role_id = ''role-hr'',
      required_skills =
        [\<lparr>req_skill_id = ''fe-001'', minimum_proficiency = 5, req_importance = Medium\<rparr>,
         \<lparr>req_skill_id = ''fe-005'', minimum_proficiency = 6, req_importance = High\<rparr>],
      min_experience_years = 3\<rparr>"

definition role_no_skills :: TargetRole where
  "role_no_skills = \<lparr>role_id = ''role-0'', required_skills = [], min_experience_years = 5\<rparr>"

definition role_zero_minimum :: TargetRole where
  "role_zero_minimum =
     \<lparr>role_id = ''role-z'',
      required_skills =
        [\<lparr>req_skill_id = ''fe-001'', minimum_proficiency = 5, req_importance = Medium\<rparr>,
         \<lparr>req_skill_id = ''fe-005'', minimum_proficiency = 0, req_importance = Low\<rparr>],
      min_experience_years = 0\<rparr>"

definition catalog_diamond :: "Skill list" where
  "catalog_diamond =
     [\<lparr>sk_id = ''sk-A'', sk_name = ''A'', difficulty = 6, typical_learning_time_weeks = 4,
       prerequisites = [''sk-B'', ''sk-C'']\<rparr>,
      \<lparr>sk_id = ''sk-B'', sk_name = ''B'', difficulty = 3, typical_learning_time_weeks = 2,
       prerequisites = [''sk-C'']\<rparr>,
      \<lparr>sk_id = ''sk-C'', sk_name = ''C'', difficulty = 5, typical_learning_time_weeks = 3,
       prerequisites = []\<rparr>]"

definition catalog_chain :: "Skill list" where
  "catalog_chain =
     [\<lparr>sk_id = ''sk-X'', sk_name = ''X'', difficulty = 6, typical_learning_time_weeks = 4,
       prerequisites = [''sk-Y'']\<rparr>,
      \<lparr>sk_id = ''sk-Y'', sk_name = ''Y'', difficulty = 4, typical_learning_time_weeks = 2,
       prerequisites = [''sk-Z'']\<rparr>,
      \<lparr>sk_id = ''sk-Z'', sk_name = ''Z'', difficulty = 2, typical_learning_time_weeks = 3,
       prerequisites = []\<rparr>]"

definition role_A :: TargetRole where
  "role_A = \<lparr>role_id = ''role-A'',
      required_skills = [\<lparr>req_skill_id = ''sk-A'', minimum_proficiency = 5, req_importance = High\<rparr>],
      min_experience_years = 0\<rparr>"

definition role_X :: TargetRole where
  "role_X = \<lparr>role_id = ''role-X'',
      required_skills = [\<lparr>req_skill_id = ''sk-X'', minimum_proficiency = 5, req_importance = High\<rparr>],
      min_experience_years = 0\<rparr>"

definition catalog_two :: "Skill list" where
  "catalog_two =
     [\<lparr>sk_id = ''sk-hard'', sk_name = ''Hard'', difficulty = 7, typical_learning_time_weeks = 2,
       prerequisites = []\<rparr>,
      \<lparr>sk_id = ''sk-easy'', sk_name = ''Easy'', difficulty = 3, typical_learning_time_weeks = 1,
       prerequisites = []\<rparr>]"


definition catalog_five :: "Skill list" where
  "catalog_five =
     [\<lparr>sk_id = ''s1'', sk_name = ''S1'', difficulty = 1, typical_learning_time_weeks = 1, prerequisites = []\<rparr>,
      \<lparr>sk_id = ''s2'', sk_name = ''S2'', difficulty = 2, typical_learning_time_weeks = 2, prerequisites = []\<rparr>,
      \<lparr>sk_id = ''s3'', sk_name = ''S3'', difficulty = 2, typical_learning_time_weeks = 3, prerequisites = []\<rparr>,
      \<lparr>sk_id = ''s4'', sk_name = ''S4'', difficulty = 3, typical_learning_time_weeks = 4, prerequisites = []\<rparr>,
      \<lparr>sk_id = ''s5'', sk_name = ''S5'', difficulty = 3, typical_learning_time_weeks = 5, prerequisites = []\<rparr>]"

definition catalog_ghost :: "Skill list" where
  "catalog_ghost =
     [\<lparr>sk_id = ''fe-005'', sk_name = ''React'', difficulty = 7, typical_learning_time_weeks = 6,
       prerequisites = [''ghost-p'']\<rparr>]"

definition cand_ghost :: Candidate where
  "cand_ghost =
     \<lparr>cand_id = ''cand-g'',
      current_skills = [\<lparr>cs_skill_id = ''ghost-c'', proficiency_level = 3\<rparr>],
      experience_years = 2\<rparr>"

definition role_ghost :: TargetRole where
  "role_ghost = \<lparr>role_id = ''role-g'',
      required_skills =
        [\<lparr>req_skill_id = ''fe-005'', minimum_proficiency = 6, req_importance = High\<rparr>,
         \<lparr>req_skill_id = ''ghost-r'', minimum_proficiency = 5, req_importance = Medium\<rparr>],
      min_experience_years = 0\<rparr>"

section \<open>The readiness formula of the specification\<close>

text \<open>
  The specification's formula for a role with zero required skills, in its words: the
  skill component is 100 and the score is round (100 * 0.7 + experienceComponent * 0.3),
  clamped to [0, 100]. The experience component is the one of the source.
\<close>

definition spec_zero_required_score :: "Candidate \<Rightarrow> TargetRole \<Rightarrow> jsnum" where
  "spec_zero_required_score candidate targetRole =
     js_round (js_min (js_max
        (js_add (js_mul (Fin 100) (Fin (7 / 10)))
                (js_mul (experienceScore candidate targetRole) (Fin (3 / 10))))
        (Fin 0)) (Fin 100))"

section \<open>Properties of gap analysis\<close>

lemma floor_rat_numeral_div [simp]:
  "\<lfloor>(numeral a :: rat) / numeral b\<rfloor> = numeral a div numeral b"
  using floor_divide_of_int_eq [of "numeral a" "numeral b", where ?'a = rat] by simp

lemma floor_rat_one_div [simp]: "\<lfloor>(1 :: rat) / numeral b\<rfloor> = 1 div numeral b"
  using floor_divide_of_int_eq [of 1 "numeral b", where ?'a = rat] by simp

lemma meets_matched_of:
  "m_meets_requirement (matched_of m r)
     = (minimum_proficiency r \<le> currentProficiency m (req_skill_id r))"
  by (simp add: matched_of_def)

lemma fst_analyze_step: "fst (analyze_step m r st) = fst st @ [matched_of m r]"
  by (simp add: analyze_step_def Let_def)

lemma snd_analyze_step:
  "snd (analyze_step m r st) =
     snd st @ (if currentProficiency m (req_skill_id r) < minimum_proficiency r
               then [gap_of m r] else [])"
  by (simp add: analyze_step_def meets_matched_of Let_def not_le)

lemma fold_analyze_step:
  "fold (analyze_step m) rs st =
     (fst st @ map (matched_of m) rs,
      snd st @ map (gap_of m)
        (filter (\<lambda>r. currentProficiency m (req_skill_id r) < minimum_proficiency r) rs))"
proof (induction rs arbitrary: st)
  case Nil
  show ?case by simp
next
  case (Cons r rs)
  have "fold (analyze_step m) (r # rs) st = fold (analyze_step m) rs (analyze_step m r st)"
    by simp
  also note Cons.IH [of "analyze_step m r st"]
  finally show ?case
    by (simp add: fst_analyze_step snd_analyze_step)
qed

lemma matched_skills_analyzeGap:
  "matched_skills (analyzeGap c t a) =
     map (matched_of (candidateSkillMap_of (current_skills c))) (required_skills t)"
  by (simp add: analyzeGap_def Let_def fold_analyze_step)

lemma missing_skills_analyzeGap:
  "missing_skills (analyzeGap c t a) =
     map (gap_of (candidateSkillMap_of (current_skills c)))
       (filter (\<lambda>r. currentProficiency (candidateSkillMap_of (current_skills c)) (req_skill_id r)
                      < minimum_proficiency r) (required_skills t))"
  by (simp add: analyzeGap_def Let_def fold_analyze_step)

lemma readiness_score_analyzeGap:
  "readiness_score (analyzeGap c t a) =
     calculateReadinessScore c t
       (map (matched_of (candidateSkillMap_of (current_skills c))) (required_skills t))"
  by (simp add: analyzeGap_def Let_def fold_analyze_step)

lemma candidateSkillMap_of_fold_None:
  "(fold (\<lambda>cs m. m(cs_skill_id cs \<mapsto> cs)) xs m0) sid = None
     \<longleftrightarrow> m0 sid = None \<and> sid \<notin> cs_skill_id ` set xs"
  by (induction xs arbitrary: m0) auto

lemma candidateSkillMap_of_None:
  "candidateSkillMap_of xs sid = None \<longleftrightarrow> sid \<notin> cs_skill_id ` set xs"
  by (simp add: candidateSkillMap_of_def candidateSkillMap_of_fold_None)

lemma currentProficiency_unlisted:
  "sid \<notin> cs_skill_id ` set xs \<Longrightarrow> currentProficiency (candidateSkillMap_of xs) sid = 0"
  using candidateSkillMap_of_None [of xs sid] by (simp add: currentProficiency_def)

text \<open>
  C1. The gap list is exactly the list of gap entries of the unmet requirements, in the
  order of the requirements, where a requirement is unmet when the candidate's current
  proficiency is strictly below its minimum proficiency. Hence a requirement has a gap
  entry (same skill, same required proficiency) if and only if it is unmet; every entry
  carries gap magnitude minimum - current and the importance tier of a requirement it comes
  from; and the current proficiency of a skill the candidate does not list is 0.
\<close>

theorem C1_gap_iff_unmet:
  "missing_skills (analyzeGap candidate targetRole allSkills) =
     map (gap_of (candidateSkillMap_of (current_skills candidate)))
       (filter (\<lambda>r. currentProficiency (candidateSkillMap_of (current_skills candidate))
                       (req_skill_id r) < minimum_proficiency r)
          (required_skills targetRole))
   \<and> (\<forall>r \<in> set (required_skills targetRole).
         (\<exists>g \<in> set (missing_skills (analyzeGap candidate targetRole allSkills)).
             gap_skill_id g = req_skill_id r \<and>
             gap_required_proficiency g = minimum_proficiency r)
         \<longleftrightarrow> currentProficiency (candidateSkillMap_of (current_skills candidate))
                (req_skill_id r) < minimum_proficiency r)
   \<and> (\<forall>g \<in> set (missing_skills (analyzeGap candidate targetRole allSkills)).
         gap_score g = gap_required_proficiency g - gap_current_proficiency g \<and>
         gap_current_proficiency g
           = currentProficiency (candidateSkillMap_of (current_skills candidate)) (gap_skill_id g) \<and>
         gap_current_proficiency g < gap_required_proficiency g \<and>
         (\<exists>r \<in> set (required_skills targetRole).
             req_skill_id r = gap_skill_id g \<and>
             minimum_proficiency r = gap_required_proficiency g \<and>
             req_importance r = priority g))
   \<and> (\<forall>sid. sid \<notin> cs_skill_id ` set (current_skills candidate) \<longrightarrow>
         currentProficiency (candidateSkillMap_of (current_skills candidate)) sid = 0)"
  unfolding missing_skills_analyzeGap
  by (intro conjI) (auto simp: gap_of_def currentProficiency_unlisted)

theorem C1_gap_iff_unmet_witness:
  "missing_skills (analyzeGap cand_html role_html_react []) =
     [\<lparr>gap_skill_id = ''fe-005'', gap_current_proficiency = 0,
       gap_required_proficiency = 6, gap_score = 6, priority = High\<rparr>]"
  using C1_gap_iff_unmet [of cand_html role_html_react "[]"]
  by (simp add: cand_html_def role_html_react_def candidateSkillMap_of_def
        currentProficiency_def gap_of_def or0_def)

section \<open>Properties of the readiness score\<close>

lemma calculateReadinessScore_no_required:
  "required_skills t = [] \<Longrightarrow> calculateReadinessScore c t ms = Fin 100"
  by (simp add: calculateReadinessScore_def)

lemma importanceMultiplier_pos: "0 < importanceMultiplier i"
  by (cases i) (simp_all add: importanceMultiplier_def)

lemma fold_weight_ge:
  "s \<le> fold (\<lambda>req sum. sum + importanceMultiplier (req_importance req)) rs s"
proof (induction rs arbitrary: s)
  case Nil
  show ?case by simp
next
  case (Cons r rs)
  have "s \<le> s + importanceMultiplier (req_importance r)"
    using importanceMultiplier_pos [of "req_importance r"] by simp
  also have "\<dots> \<le> fold (\<lambda>req sum. sum + importanceMultiplier (req_importance req)) rs
                      (s + importanceMultiplier (req_importance r))"
    by (rule Cons.IH)
  finally show ?case by simp
qed

lemma totalImportanceWeight_pos:
  assumes "required_skills t \<noteq> []"
  shows "0 < totalImportanceWeight t"
proof -
  obtain r rs where rs: "required_skills t = r # rs"
    using assms by (cases "required_skills t") auto
  have "0 < 0 + importanceMultiplier (req_importance r)"
    using importanceMultiplier_pos [of "req_importance r"] by simp
  also have "\<dots> \<le> fold (\<lambda>req sum. sum + importanceMultiplier (req_importance req)) rs
                      (0 + importanceMultiplier (req_importance r))"
    by (rule fold_weight_ge)
  finally show ?thesis
    by (simp add: totalImportanceWeight_def rs)
qed

lemma skillScore_step_NaN: "skillScore_step t m NaN = NaN"
  by (simp add: skillScore_step_def split: option.split)

lemma fold_skillScore_step_NaN: "fold (skillScore_step t) ms NaN = NaN"
  by (induction ms) (simp_all add: skillScore_step_NaN)

lemma js_add_NaN_right: "js_add x NaN = NaN"
  by (cases x) simp_all

lemma find_req_Some:
  "r \<in> set rs \<Longrightarrow> \<exists>q. find (\<lambda>q. req_skill_id q = req_skill_id r) rs = Some q"
  by (induction rs) auto

lemma skillScore_step_zero_zero:
  assumes "r \<in> set (required_skills t)"
    and "m_skill_id m = req_skill_id r"
    and "m_current_proficiency m = 0" and "m_required_proficiency m = 0"
  shows "skillScore_step t m acc = NaN"
proof -
  obtain q where "find (\<lambda>q. req_skill_id q = m_skill_id m) (required_skills t) = Some q"
    using find_req_Some [OF assms(1)] assms(2) by auto
  then show ?thesis
    using assms(3,4)
    by (simp add: skillScore_step_def inf_of_sign_def js_add_NaN_right)
qed

lemma fold_skillScore_hits_NaN:
  assumes "m \<in> set ms" and "\<And>acc. skillScore_step t m acc = NaN"
  shows "fold (skillScore_step t) ms acc = NaN"
proof -
  obtain xs ys where "ms = xs @ m # ys"
    using assms(1) by (auto simp: in_set_conv_decomp)
  then show ?thesis
    by (simp add: assms(2) fold_skillScore_step_NaN)
qed

lemma clamp_round_0: "js_round (js_min (js_max (Fin 0) (Fin 0)) (Fin 100)) = Fin 0"
  by simp

lemma score_of_NaN_skillScore:
  assumes "required_skills t \<noteq> []" and "ms \<noteq> []"
    and "fold (skillScore_step t) ms (Fin 0) = NaN"
  shows "calculateReadinessScore c t ms = Fin 0"
  using assms totalImportanceWeight_pos [OF assms(1)]
  by (simp add: calculateReadinessScore_def normalizedSkillScore_def Let_def clamp_round_0
)

lemma skillScore_step_zero_current:
  assumes "m_current_proficiency m = 0" and "acc = Fin 0 \<or> acc = NaN"
  shows "skillScore_step t m acc = Fin 0 \<or> skillScore_step t m acc = NaN"
  using assms
  by (auto simp: skillScore_step_def inf_of_sign_def split: option.split)

lemma fold_skillScore_zero_current:
  assumes "\<forall>m \<in> set ms. m_current_proficiency m = 0" and "acc = Fin 0 \<or> acc = NaN"
  shows "fold (skillScore_step t) ms acc = Fin 0 \<or> fold (skillScore_step t) ms acc = NaN"
  using assms
proof (induction ms arbitrary: acc)
  case Nil
  then show ?case by simp
next
  case (Cons m ms)
  have "skillScore_step t m acc = Fin 0 \<or> skillScore_step t m acc = NaN"
    using Cons.prems by (intro skillScore_step_zero_current) auto
  then show ?case
    using Cons.IH [of "skillScore_step t m acc"] Cons.prems(1) by simp
qed

lemma score_zero_skill_zero_experience:
  assumes "required_skills t \<noteq> []" and "ms \<noteq> []"
    and "fold (skillScore_step t) ms (Fin 0) = Fin 0"
    and "experience_years c = 0" and "0 < min_experience_years t"
  shows "calculateReadinessScore c t ms = Fin 0"
  using assms totalImportanceWeight_pos [OF assms(1)]
  by (simp add: calculateReadinessScore_def normalizedSkillScore_def experienceScore_def
        Let_def)

text \<open>
  C10. If some requirement has minimum proficiency 0 and the candidate's current
  proficiency for its skill is 0 as well (so the role has at least one required skill),
  the readiness score is 0, whatever the other skills and the experience: the ratio 0/0 is
  \<open>NaN\<close>, it absorbs the weighted sum, and the final guard replaces the score by 0.
\<close>

theorem C10_zero_over_zero:
  assumes "r \<in> set (required_skills targetRole)"
    and "minimum_proficiency r = 0"
    and "currentProficiency (candidateSkillMap_of (current_skills candidate)) (req_skill_id r) = 0"
  shows "readiness_score (analyzeGap candidate targetRole allSkills) = Fin 0"
proof -
  let ?m = "candidateSkillMap_of (current_skills candidate)"
  let ?ms = "map (matched_of ?m) (required_skills targetRole)"
  have ne: "required_skills targetRole \<noteq> []" using assms(1) by auto
  have "matched_of ?m r \<in> set ?ms" using assms(1) by simp
  moreover have "skillScore_step targetRole (matched_of ?m r) acc = NaN" for acc
    by (rule skillScore_step_zero_zero [OF assms(1)]) (simp_all add: matched_of_def assms)
  ultimately have "fold (skillScore_step targetRole) ?ms (Fin 0) = NaN"
    by (rule fold_skillScore_hits_NaN)
  then show ?thesis
    using ne by (simp add: readiness_score_analyzeGap score_of_NaN_skillScore)
qed

theorem C10_zero_over_zero_witness:
  "readiness_score (analyzeGap cand_html role_zero_minimum []) = Fin 0"
proof -
  let ?r = "\<lparr>req_skill_id = ''fe-005'', minimum_proficiency = 0, req_importance = Low\<rparr>"
  have "?r \<in> set (required_skills role_zero_minimum)"
    by (simp add: role_zero_minimum_def)
  moreover have "minimum_proficiency ?r = 0"
    by simp
  moreover have
    "currentProficiency (candidateSkillMap_of (current_skills cand_html)) (req_skill_id ?r) = 0"
    by (simp add: cand_html_def candidateSkillMap_of_def currentProficiency_def)
  ultimately show ?thesis
    by (rule C10_zero_over_zero)
qed

text \<open>
  C5, as amended. For a candidate that holds zero skills the readiness score is 100 when
  the target role has zero required skills (that guard is checked first), and it is 0 when
  the role has at least one required skill and the candidate has zero experience years
  against a positive required experience.
\<close>

theorem C5_zero_skills_amended:
  assumes "current_skills candidate = []"
  shows "(required_skills targetRole = [] \<longrightarrow>
            readiness_score (analyzeGap candidate targetRole allSkills) = Fin 100) \<and>
         (required_skills targetRole \<noteq> [] \<and> experience_years candidate = 0 \<and>
          0 < min_experience_years targetRole \<longrightarrow>
            readiness_score (analyzeGap candidate targetRole allSkills) = Fin 0)"
proof (intro conjI impI)
  assume "required_skills targetRole = []"
  then show "readiness_score (analyzeGap candidate targetRole allSkills) = Fin 100"
    by (simp add: readiness_score_analyzeGap calculateReadinessScore_no_required)
next
  assume a: "required_skills targetRole \<noteq> [] \<and> experience_years candidate = 0 \<and>
          0 < min_experience_years targetRole"
  let ?m = "candidateSkillMap_of (current_skills candidate)"
  let ?ms = "map (matched_of ?m) (required_skills targetRole)"
  have cur: "currentProficiency ?m sid = 0" for sid
    using currentProficiency_unlisted [of sid "[]"] assms by simp
  have "\<forall>m \<in> set ?ms. m_current_proficiency m = 0"
    by (auto simp: matched_of_def cur)
  then have "fold (skillScore_step targetRole) ?ms (Fin 0) = Fin 0
           \<or> fold (skillScore_step targetRole) ?ms (Fin 0) = NaN"
    by (rule fold_skillScore_zero_current) simp
  then show "readiness_score (analyzeGap candidate targetRole allSkills) = Fin 0"
    using a
    by (auto simp: readiness_score_analyzeGap score_of_NaN_skillScore
          score_zero_skill_zero_experience)
qed

theorem C5_zero_skills_amended_witness:
  "readiness_score (analyzeGap cand_novice role_no_skills []) = Fin 100 \<and>
   readiness_score (analyzeGap cand_novice role_react []) = Fin 0"
proof -
  have "current_skills cand_novice = []"
    by (simp add: cand_novice_def)
  from C5_zero_skills_amended [OF this, of role_no_skills "[]"]
       C5_zero_skills_amended [OF this, of role_react "[]"]
  show ?thesis
    by (simp add: cand_novice_def role_no_skills_def role_react_def)
qed

text \<open>
  The claim C5 as stated fails twice: a candidate without skills scores 100 against a role
  without required skills, and 30 against a role with one required skill when the
  experience requirement is met.
\<close>

theorem C5_zero_skills_counterexample:
  "current_skills cand_no_skills = [] \<and>
   readiness_score (analyzeGap cand_no_skills role_no_skills []) = Fin 100 \<and>
   readiness_score (analyzeGap cand_no_skills role_react []) = Fin 30"
  by (simp add: readiness_score_analyzeGap cand_no_skills_def role_react_def role_no_skills_def
        calculateReadinessScore_def normalizedSkillScore_def experienceScore_def
        totalImportanceWeight_def skillScore_step_def matched_of_def currentProficiency_def
        candidateSkillMap_of_def importanceMultiplier_def Let_def)

text \<open>
  C6, as amended. For a target role with zero required skills the readiness score is 100,
  whatever the candidate and whatever the required experience years.
\<close>

theorem C6_no_required_skills_amended:
  "required_skills targetRole = [] \<Longrightarrow>
     readiness_score (analyzeGap candidate targetRole allSkills) = Fin 100"
  by (simp add: readiness_score_analyzeGap calculateReadinessScore_no_required)

theorem C6_no_required_skills_amended_witness:
  "required_skills role_no_skills = [] \<and>
   readiness_score (analyzeGap cand_novice role_no_skills []) = Fin 100"
proof -
  have "required_skills role_no_skills = []"
    by (simp add: role_no_skills_def)
  then show ?thesis
    using C6_no_required_skills_amended [of role_no_skills cand_novice "[]"] by simp
qed

text \<open>
  The claim C6 as stated fails: for a role with zero required skills and five required
  years, a candidate with zero years scores 100, where the specification's formula
  round (100 * 0.7 + 0 * 0.3) gives 70.
\<close>

theorem C6_no_required_skills_counterexample:
  "required_skills role_no_skills = [] \<and>
   readiness_score (analyzeGap cand_novice role_no_skills []) = Fin 100 \<and>
   spec_zero_required_score cand_novice role_no_skills = Fin 70 \<and>
   readiness_score (analyzeGap cand_novice role_no_skills [])
     \<noteq> spec_zero_required_score cand_novice role_no_skills"
  by (simp add: readiness_score_analyzeGap cand_novice_def role_no_skills_def
        calculateReadinessScore_def spec_zero_required_score_def experienceScore_def Let_def)

section \<open>Properties of the topological sort\<close>

lemma sortQueue_head_least:
  assumes "sortQueue sm queue = current # rest"
  shows "current \<in> set queue \<and> (\<forall>x \<in> set queue. skillDifficulty sm current \<le> skillDifficulty sm x)"
proof -
  have s: "set (current # rest) = set queue"
    using assms set_sort [of "skillDifficulty sm" queue] by (simp add: sortQueue_def)
  have "sorted (map (skillDifficulty sm) (current # rest))"
    using assms sorted_sort_key [of "skillDifficulty sm" queue] by (simp add: sortQueue_def)
  then have "\<forall>x \<in> set (current # rest). skillDifficulty sm current \<le> skillDifficulty sm x"
    by auto
  then show ?thesis
    using s by auto
qed

lemma sortQueue_eq_Nil: "sortQueue sm queue = [] \<longleftrightarrow> queue = []"
proof -
  have "length (sortQueue sm queue) = length queue"
    by (simp add: sortQueue_def)
  then show ?thesis
    by (metis length_0_conv)
qed

lemma kahn_loop_step:
  "sortQueue sm queue = current # rest \<Longrightarrow>
     kahn_loop sm g queue inDeg result =
       kahn_loop sm g (snd (process_neighbors g current (inDeg, rest)))
         (fst (process_neighbors g current (inDeg, rest))) (result @ [current])"
  by (subst kahn_loop.simps) simp

lemma kahn_loop_Nil: "kahn_loop sm g [] inDeg result = result"
  by (subst kahn_loop.simps) (simp add: sortQueue_def)

lemma kahn_loop_acc:
  "kahn_loop sm g q d (r1 @ r) = r1 @ kahn_loop sm g q d r"
proof (induction sm g q d r arbitrary: r1 rule: kahn_loop.induct)
  case (1 sm g q d r)
  show ?case
  proof (cases "sortQueue sm q")
    case Nil
    then show ?thesis
      by (simp add: kahn_loop.simps [of sm g q])
  next
    case (Cons c rest)
    show ?thesis
      using "1.IH" [OF Cons, of r1]
      by (simp add: kahn_loop_step [OF Cons])
  qed
qed

lemma neighbor_step_keeps_queue: "set (snd st) \<subseteq> set (snd (neighbor_step n st))"
  by (auto simp: neighbor_step_def Let_def)

lemma fold_neighbor_step_keeps_queue: "set (snd st) \<subseteq> set (snd (fold neighbor_step ns st))"
proof (induction ns arbitrary: st)
  case Nil
  show ?case by simp
next
  case (Cons n ns)
  have "set (snd st) \<subseteq> set (snd (neighbor_step n st))"
    by (rule neighbor_step_keeps_queue)
  also have "\<dots> \<subseteq> set (snd (fold neighbor_step ns (neighbor_step n st)))"
    by (rule Cons.IH)
  finally show ?case by simp
qed

lemma process_neighbors_keeps_queue:
  "set rest \<subseteq> set (snd (process_neighbors g c (d, rest)))"
  using fold_neighbor_step_keeps_queue [of "(d, rest)"] by (simp add: process_neighbors_def)

lemma sortQueue_set: "set (sortQueue sm q) = set q"
  by (simp add: sortQueue_def)

lemma kahn_loop_emits_queue: "set q \<subseteq> set (kahn_loop sm g q d r)"
proof (induction sm g q d r rule: kahn_loop.induct)
  case (1 sm g q d r)
  show ?case
  proof (cases "sortQueue sm q")
    case Nil
    then show ?thesis
      by (simp add: sortQueue_eq_Nil)
  next
    case (Cons c rest)
    let ?q' = "snd (process_neighbors g c (d, rest))"
    let ?d' = "fst (process_neighbors g c (d, rest))"
    have out: "kahn_loop sm g q d r = kahn_loop sm g ?q' ?d' (r @ [c])"
      by (rule kahn_loop_step [OF Cons])
    have "c \<in> set (kahn_loop sm g ?q' ?d' (r @ [c]))"
      using kahn_loop_acc [of sm g ?q' ?d' "r @ [c]" "[]"] by simp
    moreover have "set rest \<subseteq> set (kahn_loop sm g ?q' ?d' (r @ [c]))"
      using process_neighbors_keeps_queue [of rest g c d] "1.IH" [OF Cons] by blast
    moreover have "set q = insert c (set rest)"
      using sortQueue_set [of sm q] Cons by simp
    ultimately show ?thesis
      using out by simp
  qed
qed

lemma kahn_loop_emits_head_first:
  assumes "sortQueue sm q = c # rest"
  shows "\<exists>more. kahn_loop sm g q d r = r @ c # more \<and> set rest \<subseteq> set more"
proof -
  let ?q' = "snd (process_neighbors g c (d, rest))"
  let ?d' = "fst (process_neighbors g c (d, rest))"
  have "kahn_loop sm g q d r = kahn_loop sm g ?q' ?d' (r @ [c])"
    by (rule kahn_loop_step [OF assms])
  also have "\<dots> = (r @ [c]) @ kahn_loop sm g ?q' ?d' []"
    using kahn_loop_acc [of sm g ?q' ?d' "r @ [c]" "[]"] by simp
  finally have "kahn_loop sm g q d r = r @ c # kahn_loop sm g ?q' ?d' []"
    by simp
  moreover have "set rest \<subseteq> set (kahn_loop sm g ?q' ?d' [])"
    using process_neighbors_keeps_queue [of rest g c d] kahn_loop_emits_queue [of ?q' sm g ?d' "[]"]
    by blast
  ultimately show ?thesis by blast
qed

lemma two_independent_skills:
  assumes "a \<noteq> b"
    and "skillMap_of allSkills a = Some sa" and "skillMap_of allSkills b = Some sb"
    and "prerequisites sa = []" and "prerequisites sb = []"
    and "difficulty sa < difficulty sb"
  shows "topologicalSort [a, b] allSkills cm = [a, b] \<and> topologicalSort [b, a] allSkills cm = [a, b]"
proof -
  let ?sm = "skillMap_of allSkills"
  have d: "skillDifficulty ?sm a < skillDifficulty ?sm b"
    using assms by (simp add: skillDifficulty_def or0_def)
  have s1: "sortQueue ?sm [a, b] = [a, b]" and s2: "sortQueue ?sm [b, a] = [a, b]"
    and s3: "sortQueue ?sm [b] = [b]"
    using d by (simp_all add: sortQueue_def)
  have b1: "build_graph ?sm cm [a, b] = \<lparr>skillIds = [a, b], graph = [(a, []), (b, [])], inDegree = [(a, 0), (b, 0)]\<rparr>"
    using assms by (simp add: build_graph_def init_state_def skill_step_def)
  have b2: "build_graph ?sm cm [b, a] = \<lparr>skillIds = [b, a], graph = [(b, []), (a, [])], inDegree = [(b, 0), (a, 0)]\<rparr>"
    using assms by (simp add: build_graph_def init_state_def skill_step_def)
  have p: "process_neighbors [(a, []), (b, [])] x st = st" "process_neighbors [(b, []), (a, [])] x st = st" for x st
    by (simp_all add: process_neighbors_def)
  show ?thesis
    using assms(1)
    by (simp add: topologicalSort_def Let_def b1 b2 initial_queue_def
          kahn_loop_step [OF s1] kahn_loop_step [OF s2] kahn_loop_step [OF s3] p kahn_loop_Nil)
qed

text \<open>
  C7. In every pass of the sequencing loop the skill that is emitted is an element of the
  ready-queue whose difficulty (the catalog difficulty, 0 for an identifier outside the
  catalog) is lowest among all the elements of the queue at that pass: it is the next
  element of the output, and the other elements of the queue follow it. In particular two
  skills without prerequisites, one strictly easier than the other (difficulties 3 and 7,
  say), are sequenced with the easier one first, in whichever order they are given.
\<close>

theorem C7_lowest_difficulty_first:
  "(\<forall>current rest. sortQueue skillMap queue = current # rest \<longrightarrow>
       current \<in> set queue \<and>
       (\<forall>x \<in> set queue. skillDifficulty skillMap current \<le> skillDifficulty skillMap x) \<and>
       kahn_loop skillMap g queue inDeg result =
         kahn_loop skillMap g (snd (process_neighbors g current (inDeg, rest)))
           (fst (process_neighbors g current (inDeg, rest))) (result @ [current]) \<and>
       (\<exists>more. kahn_loop skillMap g queue inDeg result = result @ current # more \<and>
                set rest \<subseteq> set more \<and> set queue = insert current (set rest)))
   \<and> (queue \<noteq> [] \<longrightarrow> sortQueue skillMap queue \<noteq> [])
   \<and> (a \<noteq> b \<and> skillMap_of allSkills a = Some sa \<and> skillMap_of allSkills b = Some sb \<and>
        prerequisites sa = [] \<and> prerequisites sb = [] \<and> difficulty sa < difficulty sb \<longrightarrow>
          topologicalSort [a, b] allSkills candidateSkillMap = [a, b] \<and>
          topologicalSort [b, a] allSkills candidateSkillMap = [a, b])"
proof (intro conjI allI impI)
  fix current rest
  assume s: "sortQueue skillMap queue = current # rest"
  show "current \<in> set queue"
    using sortQueue_head_least [OF s] by simp
  show "\<forall>x \<in> set queue. skillDifficulty skillMap current \<le> skillDifficulty skillMap x"
    using sortQueue_head_least [OF s] by simp
  show "kahn_loop skillMap g queue inDeg result =
          kahn_loop skillMap g (snd (process_neighbors g current (inDeg, rest)))
            (fst (process_neighbors g current (inDeg, rest))) (result @ [current])"
    by (rule kahn_loop_step [OF s])
  have "set queue = insert current (set rest)"
    using sortQueue_set [of skillMap queue] s by simp
  then show "\<exists>more. kahn_loop skillMap g queue inDeg result = result @ current # more \<and>
                set rest \<subseteq> set more \<and> set queue = insert current (set rest)"
    using kahn_loop_emits_head_first [OF s, of g inDeg result] by blast
next
  assume "queue \<noteq> []"
  then show "sortQueue skillMap queue \<noteq> []"
    by (simp add: sortQueue_eq_Nil)
next
  assume h: "a \<noteq> b \<and> skillMap_of allSkills a = Some sa \<and> skillMap_of allSkills b = Some sb \<and>
        prerequisites sa = [] \<and> prerequisites sb = [] \<and> difficulty sa < difficulty sb"
  then have "a \<noteq> b" and "skillMap_of allSkills a = Some sa"
    and "skillMap_of allSkills b = Some sb" and "prerequisites sa = []"
    and "prerequisites sb = []" and "difficulty sa < difficulty sb"
    by blast+
  then have t: "topologicalSort [a, b] allSkills candidateSkillMap = [a, b] \<and>
          topologicalSort [b, a] allSkills candidateSkillMap = [a, b]"
    by (rule two_independent_skills)
  from t show "topologicalSort [a, b] allSkills candidateSkillMap = [a, b]" by simp
  from t show "topologicalSort [b, a] allSkills candidateSkillMap = [a, b]" by simp
qed

theorem C7_lowest_difficulty_first_witness:
  "topologicalSort [''sk-hard'', ''sk-easy''] catalog_two Map.empty = [''sk-easy'', ''sk-hard'']"
proof -
  let ?easy = "\<lparr>sk_id = ''sk-easy'', sk_name = ''Easy'', difficulty = 3,
                 typical_learning_time_weeks = 1, prerequisites = []\<rparr>"
  let ?hard = "\<lparr>sk_id = ''sk-hard'', sk_name = ''Hard'', difficulty = 7,
                 typical_learning_time_weeks = 2, prerequisites = []\<rparr>"
  have "''sk-easy'' \<noteq> ''sk-hard'' \<and>
        skillMap_of catalog_two ''sk-easy'' = Some ?easy \<and>
        skillMap_of catalog_two ''sk-hard'' = Some ?hard \<and>
        prerequisites ?easy = [] \<and> prerequisites ?hard = [] \<and>
        difficulty ?easy < difficulty ?hard"
    by (simp add: catalog_two_def skillMap_of_def)
  with C7_lowest_difficulty_first
         [where a = "''sk-easy''" and b = "''sk-hard''" and allSkills = catalog_two
            and sa = ?easy and sb = ?hard and candidateSkillMap = Map.empty]
  show ?thesis by blast
qed

text \<open>
  C2 does not hold of the code. The edge-building loop visits only the skills of the gap
  list: a prerequisite that it appends to the working list is never visited, so its own
  prerequisites get no edge. With a catalog where A requires B and C, and B requires C, a
  candidate without skills and a role that requires A, the roadmap is B, C, A: step 1 is
  B, and C, a catalog prerequisite of B that is in the roadmap, is step 2.
\<close>

theorem C2_prerequisite_after_dependent:
  "\<not> isl (generateAnalysis ''2026-01-17'' cand_no_skills role_A catalog_diamond) \<and>
   map (\<lambda>s. (step_order s, step_skill_id s))
     (learning_path (learning_roadmap
        (projr (generateAnalysis ''2026-01-17'' cand_no_skills role_A catalog_diamond))))
     = [(1, ''sk-B''), (2, ''sk-C''), (3, ''sk-A'')] \<and>
   map_option prerequisites (skillMap_of catalog_diamond ''sk-B'') = Some [''sk-C'']"
  by code_simp

text \<open>
  C3 does not hold of the code, for the same reason. With a catalog where X requires Y and
  Y requires Z, a candidate without skills and a role that requires X, the working list
  grows by Y only: the roadmap is Y, X, and Z, a prerequisite of Y that the candidate does
  not hold, is not in it.
\<close>

theorem C3_expansion_one_level:
  "topologicalSort [''sk-X''] catalog_chain
     (candidateSkillMap_of (current_skills cand_no_skills)) = [''sk-Y'', ''sk-X''] \<and>
   \<not> isl (generateAnalysis ''2026-01-17'' cand_no_skills role_X catalog_chain) \<and>
   map step_skill_id
     (learning_path (learning_roadmap
        (projr (generateAnalysis ''2026-01-17'' cand_no_skills role_X catalog_chain))))
     = [''sk-Y'', ''sk-X''] \<and>
   map_option prerequisites (skillMap_of catalog_chain ''sk-Y'') = Some [''sk-Z''] \<and>
   \<not> candidateHasPrereq (candidateSkillMap_of (current_skills cand_no_skills)) ''sk-Z''"
  by code_simp

section \<open>Properties of the phases and of the roadmap\<close>

lemma fold_add_sum_list:
  "fold (\<lambda>x sum. sum + f x) xs (a::int) = a + sum_list (map f xs)"
  by (induction xs arbitrary: a) (simp_all add: add.assoc)

lemma map_filter_known:
  "set ids \<subseteq> dom sm \<Longrightarrow> List.map_filter sm ids = map (\<lambda>i. the (sm i)) ids"
  by (induction ids) (auto simp: List.map_filter_simps)

lemma learningSteps_known:
  "set ids \<subseteq> dom sm \<Longrightarrow>
     \<exists>steps. learningSteps pn pname sm i ids = Inr steps \<and>
       map step_skill_id steps = ids \<and>
       map estimated_weeks steps = map (\<lambda>k. typical_learning_time_weeks (the (sm k))) ids"
proof (induction ids arbitrary: i)
  case Nil
  show ?case by simp
next
  case (Cons sid ids)
  from Cons.prems obtain skill where sk: "sm sid = Some skill" by auto
  from Cons.prems have "set ids \<subseteq> dom sm" by simp
  from Cons.IH [OF this, of "i + 1"] obtain steps where
    "learningSteps pn pname sm (i + 1) ids = Inr steps"
    "map step_skill_id steps = ids"
    "map estimated_weeks steps = map (\<lambda>k. typical_learning_time_weeks (the (sm k))) ids"
    by blast
  then show ?case
    using sk by simp
qed

lemma createPhase_known:
  assumes "set ids \<subseteq> dom sm"
  shows "\<exists>p. createPhase n ids sm = Inr p \<and> map step_skill_id (skills p) = ids \<and>
           phase_estimated_weeks p = sum_list (map estimated_weeks (skills p))"
proof -
  from learningSteps_known [OF assms, of n "phaseName_of (List.map_filter sm ids)" 0]
  obtain steps where
    "learningSteps n (phaseName_of (List.map_filter sm ids)) sm 0 ids = Inr steps"
    "map step_skill_id steps = ids"
    "map estimated_weeks steps = map (\<lambda>k. typical_learning_time_weeks (the (sm k))) ids"
    by blast
  then show ?thesis
    by (simp add: createPhase_def Let_def fold_add_sum_list map_filter_known [OF assms] o_def)
qed

lemma group_step_inv:
  assumes "group_inv sm st"
  shows "\<exists>st'. group_step sm sid st = Inr st' \<and> group_inv sm st' \<and>
           ids_of st' = ids_of st @ (if sid \<in> dom sm then [sid] else [])"
proof (cases "sm sid")
  case None
  then show ?thesis
    using assms by (auto simp: group_step_def)
next
  case (Some skill)
  have known: "set (currentPhase st) \<subseteq> dom sm"
    using assms by (simp add: group_inv_def)
  show ?thesis
  proof (cases "(3 \<le> difficulty skill - currentMaxDifficulty st \<or> 4 \<le> length (currentPhase st))
                  \<and> 0 < length (currentPhase st)")
    case True
    from createPhase_known [OF known, of "length (phases st) + 1"] obtain p where
      p: "createPhase (length (phases st) + 1) (currentPhase st) sm = Inr p"
         "map step_skill_id (skills p) = currentPhase st"
         "phase_estimated_weeks p = sum_list (map estimated_weeks (skills p))"
      by blast
    have len: "length (skills p) = length (currentPhase st)"
      using p(2) by (metis length_map)
    have "phase_wf sm p"
      using p(2,3) len True assms known
      by (auto simp: phase_wf_def group_inv_def simp del: length_greater_0_conv)
    then show ?thesis
      using Some True p assms
      by (auto simp: group_step_def Let_def group_inv_def ids_of_def)
  next
    case False
    then show ?thesis
      using Some assms
      by (auto simp: group_step_def Let_def group_inv_def ids_of_def)
  qed
qed

lemma group_loop_inv:
  assumes "group_inv sm st"
  shows "\<exists>st'. group_loop sm ids st = Inr st' \<and> group_inv sm st' \<and>
           ids_of st' = ids_of st @ filter (\<lambda>i. i \<in> dom sm) ids"
  using assms
proof (induction ids arbitrary: st)
  case Nil
  then show ?case by simp
next
  case (Cons sid ids)
  from group_step_inv [OF Cons.prems, of sid] obtain st1 where
    s1: "group_step sm sid st = Inr st1" "group_inv sm st1"
        "ids_of st1 = ids_of st @ (if sid \<in> dom sm then [sid] else [])"
    by blast
  from Cons.IH [OF s1(2)] obtain st' where
    "group_loop sm ids st1 = Inr st'" "group_inv sm st'"
    "ids_of st' = ids_of st1 @ filter (\<lambda>i. i \<in> dom sm) ids"
    by blast
  then show ?case
    using s1 by auto
qed

lemma groupIntoPhases_total:
  "\<exists>phs. groupIntoPhases ids allSkills = Inr phs \<and>
     list_all (phase_wf (skillMap_of allSkills)) phs \<and>
     concat (map (\<lambda>p. map step_skill_id (skills p)) phs)
       = filter (\<lambda>i. i \<in> dom (skillMap_of allSkills)) ids"
proof -
  let ?sm = "skillMap_of allSkills"
  let ?st0 = "\<lparr>phases = [], currentPhase = [], currentMaxDifficulty = 0\<rparr>"
  have "group_inv ?sm ?st0"
    by (simp add: group_inv_def)
  from group_loop_inv [OF this, of ids] obtain st where
    st: "group_loop ?sm ids ?st0 = Inr st" "group_inv ?sm st"
        "ids_of st = filter (\<lambda>i. i \<in> dom ?sm) ids"
    by (auto simp: ids_of_def)
  show ?thesis
  proof (cases "currentPhase st = []")
    case True
    then show ?thesis
      using st by (simp add: groupIntoPhases_def group_inv_def ids_of_def)
  next
    case False
    have known: "set (currentPhase st) \<subseteq> dom ?sm"
      using st(2) by (simp add: group_inv_def)
    from createPhase_known [OF known, of "length (phases st) + 1"] obtain p where
      p: "createPhase (length (phases st) + 1) (currentPhase st) ?sm = Inr p"
         "map step_skill_id (skills p) = currentPhase st"
         "phase_estimated_weeks p = sum_list (map estimated_weeks (skills p))"
      by blast
    have len: "length (skills p) = length (currentPhase st)"
      using p(2) by (metis length_map)
    have "phase_wf ?sm p"
      using p(2,3) len False st(2) known
      by (auto simp: phase_wf_def group_inv_def)
    then show ?thesis
      using st p False
      by (simp add: groupIntoPhases_def group_inv_def ids_of_def)
  qed
qed




lemma renumber_append:
  "renumber g (xs @ ys) = renumber g xs @ renumber (g + length xs) ys"
  by (induction xs arbitrary: g) simp_all

lemma flatten_phases_renumber:
  "flatten_phases g phs = renumber g (concat (map skills phs))"
  by (induction phs arbitrary: g) (simp_all add: renumber_append)

lemma length_renumber [simp]: "length (renumber g xs) = length xs"
  by (induction xs arbitrary: g) simp_all

lemma map_skill_id_renumber [simp]: "map step_skill_id (renumber g xs) = map step_skill_id xs"
  by (induction xs arbitrary: g) simp_all

lemma map_weeks_renumber [simp]: "map estimated_weeks (renumber g xs) = map estimated_weeks xs"
  by (induction xs arbitrary: g) simp_all




lemma topologicalSort_Nil: "topologicalSort [] allSkills cm = []"
  by (simp add: topologicalSort_def Let_def build_graph_def init_state_def initial_queue_def
        kahn_loop_Nil)

lemma generateRoadmap_total:
  "\<exists>r phs. generateRoadmap now c t gaps allSkills = Inr r \<and>
     groupIntoPhases (topologicalSort (map gap_skill_id gaps) allSkills
                        (candidateSkillMap_of (current_skills c))) allSkills = Inr phs \<and>
     list_all (phase_wf (skillMap_of allSkills)) phs \<and>
     learning_path r = renumber 1 (concat (map skills phs)) \<and>
     estimated_total_weeks r = sum_list (map estimated_weeks (learning_path r)) \<and>
     map step_skill_id (learning_path r)
       = filter (\<lambda>i. i \<in> dom (skillMap_of allSkills))
           (topologicalSort (map gap_skill_id gaps) allSkills
              (candidateSkillMap_of (current_skills c)))"
proof (cases "gaps = []")
  case True
  then show ?thesis
    by (simp add: generateRoadmap_def topologicalSort_Nil groupIntoPhases_def)
next
  case False
  let ?ord = "topologicalSort (map gap_skill_id gaps) allSkills
                (candidateSkillMap_of (current_skills c))"
  from groupIntoPhases_total [of ?ord allSkills] obtain phs where
    phs: "groupIntoPhases ?ord allSkills = Inr phs"
         "list_all (phase_wf (skillMap_of allSkills)) phs"
         "concat (map (\<lambda>p. map step_skill_id (skills p)) phs)
            = filter (\<lambda>i. i \<in> dom (skillMap_of allSkills)) ?ord"
    by blast
  have "map step_skill_id (concat (map skills phs))
          = concat (map (\<lambda>p. map step_skill_id (skills p)) phs)"
    by (simp add: map_concat o_def)
  then show ?thesis
    using False phs
    by (simp add: generateRoadmap_def Let_def flatten_phases_renumber fold_add_sum_list)
qed

text \<open>
  C9. The phase grouper always returns, and every phase it returns has at least one and
  at most four skills. Its step closes the current phase before it adds the next catalog
  skill whenever the buffer is not empty and either holds four or more skills or has a
  running maximum that the next skill's difficulty exceeds by three or more (with an empty
  buffer there is no phase to close); otherwise the skill joins the buffer.
\<close>

theorem C9_phase_size:
  "(\<exists>phs. groupIntoPhases orderedSkills allSkills = Inr phs \<and>
          (\<forall>p \<in> set phs. 1 \<le> length (skills p) \<and> length (skills p) \<le> 4))
   \<and> (\<forall>skill p. skillMap skillId = Some skill \<and> currentPhase st \<noteq> [] \<and>
          (4 \<le> length (currentPhase st) \<or> 3 \<le> difficulty skill - currentMaxDifficulty st) \<and>
          createPhase (length (phases st) + 1) (currentPhase st) skillMap = Inr p
        \<longrightarrow> group_step skillMap skillId st
              = Inr \<lparr>phases = phases st @ [p], currentPhase = [skillId],
                     currentMaxDifficulty = max 0 (difficulty skill)\<rparr>)
   \<and> (\<forall>skill. skillMap skillId = Some skill \<and> length (currentPhase st) < 4 \<and>
          difficulty skill - currentMaxDifficulty st < 3
        \<longrightarrow> group_step skillMap skillId st
              = Inr (st\<lparr>currentPhase := currentPhase st @ [skillId],
                        currentMaxDifficulty := max (currentMaxDifficulty st) (difficulty skill)\<rparr>))"
proof (intro conjI)
  from groupIntoPhases_total [of orderedSkills allSkills] obtain phs where
    "groupIntoPhases orderedSkills allSkills = Inr phs"
    "list_all (phase_wf (skillMap_of allSkills)) phs"
    by blast
  then show "\<exists>phs. groupIntoPhases orderedSkills allSkills = Inr phs \<and>
          (\<forall>p \<in> set phs. 1 \<le> length (skills p) \<and> length (skills p) \<le> 4)"
    by (auto simp: list_all_iff phase_wf_def Suc_le_eq)
qed (auto simp: group_step_def Let_def)

theorem C9_phase_size_witness:
  "\<exists>phs. groupIntoPhases [''s1'', ''s2'', ''s3'', ''s4'', ''s5''] catalog_five = Inr phs \<and>
     map (\<lambda>p. length (skills p)) phs = [4, 1] \<and>
     list_all (\<lambda>p. 1 \<le> length (skills p) \<and> length (skills p) \<le> 4) phs"
proof -
  from C9_phase_size [of "[''s1'', ''s2'', ''s3'', ''s4'', ''s5'']" catalog_five]
  obtain phs where
    phs: "groupIntoPhases [''s1'', ''s2'', ''s3'', ''s4'', ''s5''] catalog_five = Inr phs"
      "\<forall>p \<in> set phs. 1 \<le> length (skills p) \<and> length (skills p) \<le> 4"
    by blast
  have "map (\<lambda>p. length (skills p))
          (projr (groupIntoPhases [''s1'', ''s2'', ''s3'', ''s4'', ''s5''] catalog_five)) = [4, 1]"
    by code_simp
  then show ?thesis
    using phs by (auto simp: list_all_iff)
qed



text \<open>
  C4, as amended. An analysis call never fails, whatever identifiers the requirements,
  the candidate's records and the catalog's prerequisite lists name. Its gap analysis is
  the one of \<open>analyzeGap\<close> (an unmet requirement on an identifier outside the catalog is
  still reported as a gap), and the skills of its learning path are the topological order
  of the gap skills and their inserted prerequisites with every identifier outside the
  catalog left out.
\<close>

theorem C4_unknown_skill_amended:
  "\<exists>a. generateAnalysis now candidate targetRole allSkills = Inr a \<and>
     gap_analysis a = analyzeGap candidate targetRole allSkills \<and>
     map step_skill_id (learning_path (learning_roadmap a))
       = filter (\<lambda>i. skillMap_of allSkills i \<noteq> None)
           (topologicalSort
              (map gap_skill_id (missing_skills (analyzeGap candidate targetRole allSkills)))
              allSkills (candidateSkillMap_of (current_skills candidate)))"
proof -
  from generateRoadmap_total [of now candidate targetRole
         "missing_skills (analyzeGap candidate targetRole allSkills)" allSkills]
  obtain r where
    "generateRoadmap now candidate targetRole
       (missing_skills (analyzeGap candidate targetRole allSkills)) allSkills = Inr r"
    "map step_skill_id (learning_path r)
       = filter (\<lambda>i. i \<in> dom (skillMap_of allSkills))
           (topologicalSort
              (map gap_skill_id (missing_skills (analyzeGap candidate targetRole allSkills)))
              allSkills (candidateSkillMap_of (current_skills candidate)))"
    by blast
  then show ?thesis
    by (simp add: generateAnalysis_def Let_def domIff)
qed

text \<open>
  The claim C4 as stated fails: with a requirement, a candidate record and a prerequisite
  that each name an identifier outside the catalog, the call returns a result; the
  unknown requirement is a gap, and the roadmap holds the one catalog skill only.
\<close>

theorem C4_unknown_skill_counterexample:
  "\<not> isl (generateAnalysis ''2026-01-17'' cand_ghost role_ghost catalog_ghost) \<and>
   map gap_skill_id (missing_skills (gap_analysis
      (projr (generateAnalysis ''2026-01-17'' cand_ghost role_ghost catalog_ghost))))
     = [''fe-005'', ''ghost-r''] \<and>
   map step_skill_id (learning_path (learning_roadmap
      (projr (generateAnalysis ''2026-01-17'' cand_ghost role_ghost catalog_ghost))))
     = [''fe-005'']"
  by code_simp

end
